theory Spec2Isabelle
  imports Main "HOL-Library.AList" "HOL-Library.Word"
begin

unbundle bit_operations_syntax

section \<open>The translation service of services/translation\_service.py\<close>

text \<open>
  A Python \<open>str\<close> is modelled as a \<open>string\<close>: one \<open>char\<close> stands for one character
  of the text, so \<open>length\<close> is Python's \<open>len\<close> (texts are those whose characters have
  code points below 256). A timestamp (\<open>datetime.utcnow()\<close>) is a number handed to the
  operation that reads the clock.
\<close>

type_synonym datetime = nat

subsection \<open>String operations of Python used by the service\<close>

definition newline :: char where
  "newline = CHR 0x0A"

definition paragraph_sep :: string where
  "paragraph_sep = [newline, newline]"

text \<open>
  \<open>s.split(sep)\<close> for a non-empty separator: the occurrences of \<open>sep\<close> are found from
  left to right without overlap, and the result always has at least one element. The
  service calls it with the literals \<open>"\n\n"\<close> and \<open>":"\<close> only (Python raises ValueError
  on an empty separator).
\<close>

function py_split :: "string \<Rightarrow> string \<Rightarrow> string list" where
  "py_split sep [] = [[]]"
| "py_split sep (c # cs) =
     (if take (length sep) (c # cs) = sep
      then [] # py_split sep (drop (length sep - 1) cs)
      else (case py_split sep cs of
              [] \<Rightarrow> [[c]]
            | p # ps \<Rightarrow> (c # p) # ps))"
  by pat_completeness auto
termination
  by (relation "measure (\<lambda>(sep, s). length s)") auto

text \<open>\<open>sep.join(xs)\<close>.\<close>

fun py_join :: "string \<Rightarrow> string list \<Rightarrow> string" where
  "py_join sep [] = []"
| "py_join sep [x] = x"
| "py_join sep (x # y # ys) = x @ sep @ py_join sep (y # ys)"

text \<open>
  The characters that \<open>str.strip()\<close> removes: those for which \<open>str.isspace()\<close> holds.
  Below code point 256 these are U+0009..U+000D, U+001C..U+0020, U+0085 and U+00A0.
\<close>

definition is_space :: "char \<Rightarrow> bool" where
  "is_space c =
     (let n = (of_char c :: nat)
      in (9 \<le> n \<and> n \<le> 13) \<or> (28 \<le> n \<and> n \<le> 32) \<or> n = 133 \<or> n = 160)"

definition py_strip :: "string \<Rightarrow> string" where
  "py_strip s = rev (dropWhile is_space (rev (dropWhile is_space s)))"

text \<open>\<open>s.endswith(suf)\<close>.\<close>

definition endswith :: "string \<Rightarrow> string \<Rightarrow> bool" where
  "endswith s suf = (length suf \<le> length s \<and> drop (length s - length suf) s = suf)"

subsection \<open>Data model (models/translation.py)\<close>

text \<open>
  Modelled from the spec: the enumeration \<open>SupportedLanguage\<close> is declared in
  models/translation.py, which is not part of the sources at hand. The spec calls it a
  closed enumeration with at minimum English and Urdu; the service compares against
  \<open>ENGLISH\<close> and \<open>URDU\<close> and tests cache keys for the suffix \<open>":urdu"\<close>. Any further member
  is \<open>OTHER v\<close>, with \<open>v\<close> its \<open>.value\<close>.
\<close>

datatype SupportedLanguage = ENGLISH | URDU | OTHER string

fun language_value :: "SupportedLanguage \<Rightarrow> string" where
  "language_value ENGLISH = ''english''"
| "language_value URDU = ''urdu''"
| "language_value (OTHER v) = v"

record ChapterTranslation =
  ct_chapter_id :: string
  ct_language :: SupportedLanguage
  original_content_hash :: string
  ct_translated_content :: string
  created_at :: datetime
  ct_updated_at :: datetime

record TranslationResponse =
  tr_chapter_id :: string
  tr_language :: SupportedLanguage
  translated_content :: string
  cached :: bool
  translated_at :: datetime

record UserTranslationPreference =
  up_session_id :: string
  up_chapter_id :: string
  preferred_language :: SupportedLanguage
  up_updated_at :: datetime

text \<open>
  The two dictionaries of the service. A Python \<open>dict\<close> keeps its keys in insertion
  order, a store to a present key keeps the key's place (\<open>AList.update\<close>), \<open>del\<close> removes
  the key (\<open>AList.delete\<close>) and \<open>.get\<close> is \<open>map_of\<close>.
\<close>

record TranslationService =
  translation_cache :: "(string \<times> ChapterTranslation) list"
  user_preferences :: "(string \<times> UserTranslationPreference) list"

definition init :: TranslationService where
  "init = \<lparr>translation_cache = [], user_preferences = []\<rparr>"

text \<open>The only exception the service raises itself: \<open>RuntimeError(message)\<close>.\<close>

datatype error = RuntimeError string

subsection \<open>The translation provider\<close>

text \<open>
  \<open>GoogleTranslator(source='en', target=code).translate(text)\<close> is an external call. It
  is a parameter of the model: from the provider's own state, the target code and the
  text it gives the translated text (\<open>Inr\<close>) or an exception with its message (\<open>Inl\<close>),
  and the provider's next state. Every call is recorded, with its outcome, in \<open>calls\<close>.
\<close>

type_synonym 'p provider = "'p \<Rightarrow> string \<Rightarrow> string \<Rightarrow> (string + string) \<times> 'p"

record 'p net =
  pstate :: 'p
  calls :: "(string \<times> string \<times> (string + string)) list"

definition translate_call ::
  "'p provider \<Rightarrow> string \<Rightarrow> string \<Rightarrow> 'p net \<Rightarrow> (string + string) \<times> 'p net" where
  "translate_call prov code text io =
     (case prov (pstate io) code text of
        (r, p') \<Rightarrow> (r, \<lparr>pstate = p', calls = calls io @ [(code, text, r)]\<rparr>))"

subsection \<open>Fingerprint and cache key\<close>

text \<open>
  \<open>hashlib.md5(content.encode('utf-8'))\<close> is a parameter \<open>md5\<close>, giving the 128-bit digest
  of a text; \<open>hexdigest()\<close> writes it as 32 lower-case hexadecimal digits.
\<close>

definition hex_digit :: "nat \<Rightarrow> char" where
  "hex_digit n = ''0123456789abcdef'' ! n"

definition hexdigest :: "128 word \<Rightarrow> string" where
  "hexdigest w = map (\<lambda>i. hex_digit (unat (drop_bit (4 * (31 - i)) w AND 15))) [0..<32]"

definition compute_content_hash :: "(string \<Rightarrow> 128 word) \<Rightarrow> string \<Rightarrow> string" where
  "compute_content_hash md5 content = hexdigest (md5 content)"

definition get_cache_key :: "string \<Rightarrow> SupportedLanguage \<Rightarrow> string" where
  "get_cache_key chapter_id language = chapter_id @ '':'' @ language_value language"

subsection \<open>get\_cached\_translation\<close>

text \<open>
  \<open>if cached:\<close> holds for every stored entry (an object is true). \<open>if content_hash and ...\<close>
  is false for \<open>None\<close> and for the empty string.
\<close>

definition get_cached_translation ::
  "TranslationService \<Rightarrow> string \<Rightarrow> SupportedLanguage \<Rightarrow> string option
     \<Rightarrow> ChapterTranslation option \<times> TranslationService" where
  "get_cached_translation st chapter_id language content_hash =
     (let cache_key = get_cache_key chapter_id language
      in case map_of (translation_cache st) cache_key of
           Some c \<Rightarrow>
             (if (case content_hash of None \<Rightarrow> False | Some h \<Rightarrow> h \<noteq> [])
                 \<and> Some (original_content_hash c) \<noteq> content_hash
              then (None, st\<lparr>translation_cache := AList.delete cache_key (translation_cache st)\<rparr>)
              else (Some c, st))
         | None \<Rightarrow> (None, st))"

subsection \<open>\_translate\_with\_google\<close>

definition max_chunk_size :: nat where
  "max_chunk_size = 4500"

text \<open>
  The \<open>for para in paragraphs\<close> loop: the paragraphs still to visit, \<open>current_chunk\<close> and
  \<open>translated_parts\<close>. An exception of the provider leaves the loop (\<open>Inl\<close>).
\<close>

fun translate_paragraphs ::
  "'p provider \<Rightarrow> string \<Rightarrow> string list \<Rightarrow> string \<Rightarrow> string list \<Rightarrow> 'p net
     \<Rightarrow> (string + string \<times> string list) \<times> 'p net" where
  "translate_paragraphs prov code [] current_chunk translated_parts io =
     (Inr (current_chunk, translated_parts), io)"
| "translate_paragraphs prov code (para # rest) current_chunk translated_parts io =
     (if length current_chunk + length para + 2 \<le> max_chunk_size
      then translate_paragraphs prov code rest
             (current_chunk @ para @ paragraph_sep) translated_parts io
      else if py_strip current_chunk \<noteq> []
      then (case translate_call prov code (py_strip current_chunk) io of
              (Inl e, io') \<Rightarrow> (Inl e, io')
            | (Inr translated, io') \<Rightarrow>
                translate_paragraphs prov code rest
                  (para @ paragraph_sep) (translated_parts @ [translated]) io')
      else translate_paragraphs prov code rest (para @ paragraph_sep) translated_parts io)"

text \<open>The body of the \<open>try\<close> block.\<close>

definition translate_chunks ::
  "'p provider \<Rightarrow> string \<Rightarrow> string \<Rightarrow> 'p net \<Rightarrow> (string + string) \<times> 'p net" where
  "translate_chunks prov lang_code content io =
     (if length content \<le> max_chunk_size
      then translate_call prov lang_code content io
      else (case translate_paragraphs prov lang_code (py_split paragraph_sep content) [] [] io of
              (Inl e, io') \<Rightarrow> (Inl e, io')
            | (Inr (current_chunk, translated_parts), io') \<Rightarrow>
                (if py_strip current_chunk \<noteq> []
                 then (case translate_call prov lang_code (py_strip current_chunk) io' of
                         (Inl e, io'') \<Rightarrow> (Inl e, io'')
                       | (Inr translated, io'') \<Rightarrow>
                           (Inr (py_join paragraph_sep (translated_parts @ [translated])), io''))
                 else (Inr (py_join paragraph_sep translated_parts), io'))))"

definition translate_with_google ::
  "'p provider \<Rightarrow> string \<Rightarrow> SupportedLanguage \<Rightarrow> 'p net \<Rightarrow> (error + string) \<times> 'p net" where
  "translate_with_google prov content target_language io =
     (if target_language = ENGLISH then (Inr content, io)
      else
        (let lang_code = (if target_language = URDU then ''ur'' else ''en'')
         in case translate_chunks prov lang_code content io of
              (Inl e, io') \<Rightarrow> (Inl (RuntimeError (''Translation failed: '' @ e)), io')
            | (Inr translated, io') \<Rightarrow> (Inr translated, io')))"

subsection \<open>translate\_chapter\<close>

text \<open>
  The first component of the returned pair; the second, a wall-clock latency, is outside
  the model. \<open>now\<close> is the value of \<open>datetime.utcnow()\<close>.
\<close>

definition translate_chapter ::
  "'p provider \<Rightarrow> (string \<Rightarrow> 128 word) \<Rightarrow> datetime \<Rightarrow> string \<Rightarrow> string \<Rightarrow> SupportedLanguage
     \<Rightarrow> TranslationService \<Rightarrow> 'p net
     \<Rightarrow> (error + TranslationResponse) \<times> TranslationService \<times> 'p net" where
  "translate_chapter prov md5 now chapter_id content target_language st io =
     (let content_hash = compute_content_hash md5 content
      in case get_cached_translation st chapter_id target_language (Some content_hash) of
           (Some c, st1) \<Rightarrow>
             (Inr \<lparr>tr_chapter_id = chapter_id, tr_language = target_language,
                   translated_content = ct_translated_content c, cached = True,
                   translated_at = ct_updated_at c\<rparr>, st1, io)
         | (None, st1) \<Rightarrow>
             (case translate_with_google prov content target_language io of
                (Inl e, io') \<Rightarrow> (Inl e, st1, io')
              | (Inr translated, io') \<Rightarrow>
                  (let translation =
                         \<lparr>ct_chapter_id = chapter_id, ct_language = target_language,
                          original_content_hash = content_hash,
                          ct_translated_content = translated,
                          created_at = now, ct_updated_at = now\<rparr>;
                       cache_key = get_cache_key chapter_id target_language
                   in (Inr \<lparr>tr_chapter_id = chapter_id, tr_language = target_language,
                             translated_content = translated, cached = False,
                             translated_at = now\<rparr>,
                       st1\<lparr>translation_cache :=
                             AList.update cache_key translation (translation_cache st1)\<rparr>,
                       io'))))"

subsection \<open>Preferences and statistics\<close>

definition set_user_preference ::
  "datetime \<Rightarrow> string \<Rightarrow> string \<Rightarrow> SupportedLanguage \<Rightarrow> TranslationService
     \<Rightarrow> UserTranslationPreference \<times> TranslationService" where
  "set_user_preference now session_id chapter_id language st =
     (let pref_key = session_id @ '':'' @ chapter_id;
          preference = \<lparr>up_session_id = session_id, up_chapter_id = chapter_id,
                        preferred_language = language, up_updated_at = now\<rparr>
      in (preference,
          st\<lparr>user_preferences := AList.update pref_key preference (user_preferences st)\<rparr>))"

definition get_user_preference ::
  "string \<Rightarrow> string \<Rightarrow> TranslationService \<Rightarrow> UserTranslationPreference option" where
  "get_user_preference session_id chapter_id st =
     map_of (user_preferences st) (session_id @ '':'' @ chapter_id)"

record cache_stats =
  cached_translations :: nat
  stat_user_preferences :: nat
  chapters_with_urdu :: "string list"

text \<open>\<open>k.split(":")[0]\<close> is the head of a list that is never empty.\<close>

definition get_cache_stats :: "TranslationService \<Rightarrow> cache_stats" where
  "get_cache_stats st =
     \<lparr>cached_translations = length (translation_cache st),
      stat_user_preferences = length (user_preferences st),
      chapters_with_urdu =
        map (\<lambda>k. hd (py_split '':'' k))
          (filter (\<lambda>k. endswith k '':urdu'') (map fst (translation_cache st)))\<rparr>"

subsection \<open>Example inputs\<close>

text \<open>
  Example inputs: a provider that returns every text as it is (a length-preserving mock
  translator), a provider whose every call raises, a provider record with no call yet, a
  stand-in for the digest, and a service whose cache holds one entry for chapter
  \<open>ch1\<close> in Urdu with the fingerprint \<open>old\<close>.
\<close>

definition echo_provider :: "unit provider" where
  "echo_provider p code text = (Inr text, p)"

definition failing_provider :: "unit provider" where
  "failing_provider p code text = (Inl ''timeout'', p)"

definition net0 :: "unit net" where
  "net0 = \<lparr>pstate = (), calls = []\<rparr>"

definition length_md5 :: "string \<Rightarrow> 128 word" where
  "length_md5 s = of_nat (length s)"

definition stale_entry :: ChapterTranslation where
  "stale_entry = \<lparr>ct_chapter_id = ''ch1'', ct_language = URDU, original_content_hash = ''old'',
                  ct_translated_content = ''purana'', created_at = 1, ct_updated_at = 1\<rparr>"

definition stale_service :: TranslationService where
  "stale_service = \<lparr>translation_cache = [(''ch1:urdu'', stale_entry)], user_preferences = []\<rparr>"


section \<open>Properties\<close>

text \<open>
  C6. When the target language is English, the text is returned unchanged and no
  provider call is made: the provider's state and the record of calls are untouched.
\<close>

theorem english_is_noop:
  "translate_with_google prov content ENGLISH io = (Inr content, io)"
  by (simp add: translate_with_google_def)

lemma hexdigest_length: "length (hexdigest w) = 32"
  by (simp add: hexdigest_def)

lemma compute_content_hash_nonempty: "compute_content_hash md5 content \<noteq> []"
  using hexdigest_length [of "md5 content"] by (auto simp: compute_content_hash_def)

lemma get_cached_hit:
  "map_of (translation_cache st) (get_cache_key cid l) = Some c \<Longrightarrow>
   original_content_hash c = h \<Longrightarrow>
   get_cached_translation st cid l (Some h) = (Some c, st)"
  by (simp add: get_cached_translation_def)

lemma get_cached_stale:
  "map_of (translation_cache st) (get_cache_key cid l) = Some c \<Longrightarrow>
   original_content_hash c \<noteq> h \<Longrightarrow> h \<noteq> [] \<Longrightarrow>
   get_cached_translation st cid l (Some h) =
     (None, st\<lparr>translation_cache := AList.delete (get_cache_key cid l) (translation_cache st)\<rparr>)"
  by (simp add: get_cached_translation_def)

lemma get_cached_absent:
  "map_of (translation_cache st) (get_cache_key cid l) = None \<Longrightarrow>
   get_cached_translation st cid l h = (None, st)"
  by (simp add: get_cached_translation_def)

lemma delete_absent: "map_of al k = None \<Longrightarrow> AList.delete k al = al"
  by (induction al) (auto split: if_splits)

text \<open>What a lookup with the fingerprint of the content does to the cache.\<close>

lemma get_cached_cases:
  assumes "get_cached_translation st cid l (Some (compute_content_hash md5 content)) = (r, st1)"
  shows "(case r of
      Some c \<Rightarrow> st1 = st \<and> map_of (translation_cache st) (get_cache_key cid l) = Some c
                \<and> original_content_hash c = compute_content_hash md5 content
    | None \<Rightarrow> st1 = st\<lparr>translation_cache :=
                          AList.delete (get_cache_key cid l) (translation_cache st)\<rparr>
              \<and> (\<forall>c. map_of (translation_cache st) (get_cache_key cid l) = Some c \<longrightarrow>
                     original_content_hash c \<noteq> compute_content_hash md5 content))"
proof (cases "map_of (translation_cache st) (get_cache_key cid l)")
  case None
  then have "get_cached_translation st cid l (Some (compute_content_hash md5 content))
               = (None, st)"
    by (simp add: get_cached_absent)
  with assms have "r = None" "st1 = st" by simp_all
  with None show ?thesis by (simp add: delete_absent)
next
  case (Some c)
  show ?thesis
  proof (cases "original_content_hash c = compute_content_hash md5 content")
    case True
    with Some have "get_cached_translation st cid l (Some (compute_content_hash md5 content))
                      = (Some c, st)"
      by (simp add: get_cached_hit)
    with assms have "r = Some c" "st1 = st" by simp_all
    with Some True show ?thesis by simp
  next
    case False
    with Some have "get_cached_translation st cid l (Some (compute_content_hash md5 content))
      = (None, st\<lparr>translation_cache :=
                    AList.delete (get_cache_key cid l) (translation_cache st)\<rparr>)"
      by (simp add: get_cached_stale compute_content_hash_nonempty)
    with assms have "r = None" "st1 = st\<lparr>translation_cache :=
                    AList.delete (get_cache_key cid l) (translation_cache st)\<rparr>" by simp_all
    with Some False show ?thesis by simp
  qed
qed

lemma translate_chapter_success:
  assumes "translate_chapter prov md5 now cid content l st io = (Inr r, st1, io1)"
  shows "\<exists>c. map_of (translation_cache st1) (get_cache_key cid l) = Some c
           \<and> original_content_hash c = compute_content_hash md5 content
           \<and> ct_translated_content c = translated_content r
           \<and> (cached r \<longleftrightarrow> (\<exists>c0. map_of (translation_cache st) (get_cache_key cid l) = Some c0
                  \<and> original_content_hash c0 = compute_content_hash md5 content))"
proof (cases "get_cached_translation st cid l (Some (compute_content_hash md5 content))")
  case (Pair g st')
  note gc = get_cached_cases [OF Pair]
  show ?thesis
  proof (cases g)
    case None
    with assms Pair gc show ?thesis
      by (auto simp: translate_chapter_def Let_def update_conv' split: prod.splits sum.splits)
  next
    case (Some c)
    with assms Pair gc show ?thesis
      by (auto simp: translate_chapter_def Let_def)
  qed
qed

lemma translate_chapter_hit:
  assumes "map_of (translation_cache st) (get_cache_key cid l) = Some c"
      and "original_content_hash c = compute_content_hash md5 content"
  shows "translate_chapter prov md5 now cid content l st io =
           (Inr \<lparr>tr_chapter_id = cid, tr_language = l,
                 translated_content = ct_translated_content c, cached = True,
                 translated_at = ct_updated_at c\<rparr>, st, io)"
  using assms by (simp add: translate_chapter_def Let_def get_cached_hit)

lemma translate_chapter_miss:
  assumes "\<forall>c. map_of (translation_cache st) (get_cache_key cid l) = Some c \<longrightarrow>
             original_content_hash c \<noteq> compute_content_hash md5 content"
  shows "translate_chapter prov md5 now cid content l st io =
    (case translate_with_google prov content l io of
       (Inl e, io') \<Rightarrow>
         (Inl e,
          st\<lparr>translation_cache := AList.delete (get_cache_key cid l) (translation_cache st)\<rparr>,
          io')
     | (Inr translated, io') \<Rightarrow>
         (Inr \<lparr>tr_chapter_id = cid, tr_language = l, translated_content = translated,
               cached = False, translated_at = now\<rparr>,
          st\<lparr>translation_cache :=
               AList.update (get_cache_key cid l)
                 \<lparr>ct_chapter_id = cid, ct_language = l,
                  original_content_hash = compute_content_hash md5 content,
                  ct_translated_content = translated,
                  created_at = now, ct_updated_at = now\<rparr>
                 (AList.delete (get_cache_key cid l) (translation_cache st))\<rparr>,
          io'))"
proof (cases "map_of (translation_cache st) (get_cache_key cid l)")
  case None
  then show ?thesis
    by (simp add: translate_chapter_def Let_def get_cached_absent delete_absent
             split: prod.splits sum.splits)
next
  case (Some c)
  with assms have "original_content_hash c \<noteq> compute_content_hash md5 content" by simp
  with Some show ?thesis
    by (simp add: translate_chapter_def Let_def get_cached_stale compute_content_hash_nonempty
             split: prod.splits sum.splits)
qed

text \<open>
  C3. When the cache holds no entry with the fingerprint of the text and the first
  \<open>translate_chapter\<close> succeeds, the first result has \<open>cached = False\<close>, and a second call
  with the same chapter, text and language (at any time, with any provider) returns
  \<open>cached = True\<close> with the same translated text, leaving the service and the provider
  untouched.
\<close>

theorem translate_twice_cached:
  assumes first: "translate_chapter prov md5 now cid content l st io = (Inr r1, st1, io1)"
      and fresh: "\<forall>c. map_of (translation_cache st) (get_cache_key cid l) = Some c \<longrightarrow>
                    original_content_hash c \<noteq> compute_content_hash md5 content"
  shows "cached r1 = False \<and>
         (\<exists>r2. translate_chapter prov' md5 now' cid content l st1 io' = (Inr r2, st1, io')
              \<and> cached r2 = True \<and> translated_content r2 = translated_content r1)"
proof -
  from translate_chapter_success [OF first] obtain c where
    c: "map_of (translation_cache st1) (get_cache_key cid l) = Some c"
       "original_content_hash c = compute_content_hash md5 content"
       "ct_translated_content c = translated_content r1"
    and hit: "cached r1 \<longleftrightarrow> (\<exists>c0. map_of (translation_cache st) (get_cache_key cid l) = Some c0
                  \<and> original_content_hash c0 = compute_content_hash md5 content)"
    by blast
  from hit fresh have "cached r1 = False" by auto
  moreover from c have "translate_chapter prov' md5 now' cid content l st1 io' =
           (Inr \<lparr>tr_chapter_id = cid, tr_language = l,
                 translated_content = translated_content r1, cached = True,
                 translated_at = ct_updated_at c\<rparr>, st1, io')"
    by (simp add: translate_chapter_hit)
  ultimately show ?thesis by simp
qed

text \<open>
  C2. After a successful \<open>translate_chapter\<close> of a text \<open>t1\<close>, a call for the same chapter
  and language with a text \<open>t2\<close> of a different fingerprint does not answer from the cache:
  it evicts the entry, runs \<open>translate_with_google\<close> on \<open>t2\<close> and, when that succeeds,
  returns its output with \<open>cached = False\<close> and stores it; when that fails, the error is
  returned.
\<close>

theorem retranslate_on_changed_text:
  assumes first: "translate_chapter prov md5 now cid t1 l st io = (Inr r1, st1, io1)"
      and differs: "compute_content_hash md5 t2 \<noteq> compute_content_hash md5 t1"
  shows "translate_chapter prov' md5 now' cid t2 l st1 io' =
    (case translate_with_google prov' t2 l io' of
       (Inl e, io'') \<Rightarrow>
         (Inl e,
          st1\<lparr>translation_cache := AList.delete (get_cache_key cid l) (translation_cache st1)\<rparr>,
          io'')
     | (Inr translated, io'') \<Rightarrow>
         (Inr \<lparr>tr_chapter_id = cid, tr_language = l, translated_content = translated,
               cached = False, translated_at = now'\<rparr>,
          st1\<lparr>translation_cache :=
               AList.update (get_cache_key cid l)
                 \<lparr>ct_chapter_id = cid, ct_language = l,
                  original_content_hash = compute_content_hash md5 t2,
                  ct_translated_content = translated,
                  created_at = now', ct_updated_at = now'\<rparr>
                 (AList.delete (get_cache_key cid l) (translation_cache st1))\<rparr>,
          io''))"
proof -
  from translate_chapter_success [OF first] obtain c where
    "map_of (translation_cache st1) (get_cache_key cid l) = Some c"
    "original_content_hash c = compute_content_hash md5 t1"
    by blast
  with differs have "\<forall>c. map_of (translation_cache st1) (get_cache_key cid l) = Some c \<longrightarrow>
             original_content_hash c \<noteq> compute_content_hash md5 t2"
    by auto
  then show ?thesis by (rule translate_chapter_miss)
qed

lemma translate_call_calls:
  "translate_call prov code text io = (r, io') \<Longrightarrow> calls io' = calls io @ [(code, text, r)]"
  by (auto simp: translate_call_def split: prod.splits)

lemma translate_paragraphs_calls:
  "translate_paragraphs prov code ps cur parts io = (r, io') \<Longrightarrow>
   \<exists>new. calls io' = calls io @ new \<and> (\<forall>c\<in>set new. fst c = code)
       \<and> (isl r \<longleftrightarrow> (\<exists>c\<in>set new. isl (snd (snd c))))"
proof (induction prov code ps cur parts io rule: translate_paragraphs.induct)
  case (1 prov code current_chunk translated_parts io)
  then show ?case by auto
next
  case (2 prov code para rest current_chunk translated_parts io)
  show ?case
  proof (cases "length current_chunk + length para + 2 \<le> max_chunk_size")
    case True
    with 2 show ?thesis by simp
  next
    case False
    note big = this
    show ?thesis
    proof (cases "py_strip current_chunk \<noteq> []")
      case False
      with big 2 show ?thesis by simp
    next
      case True
      obtain r1 io1 where tc: "translate_call prov code (py_strip current_chunk) io = (r1, io1)"
        by (cases "translate_call prov code (py_strip current_chunk) io")
      note c1 = translate_call_calls [OF tc]
      show ?thesis
      proof (cases r1)
        case (Inl e)
        with big True tc 2 have "r = Inl e" "io' = io1" by simp_all
        with c1 Inl show ?thesis by auto
      next
        case (Inr t)
        with big True tc 2 have
          "translate_paragraphs prov code rest (para @ paragraph_sep) (translated_parts @ [t]) io1
             = (r, io')" by simp
        from "2.IH"(2) [OF big True tc [symmetric] Inr this]
        obtain new where "calls io' = calls io1 @ new" "\<forall>c\<in>set new. fst c = code"
          "isl r \<longleftrightarrow> (\<exists>c\<in>set new. isl (snd (snd c)))" by blast
        with c1 Inr show ?thesis
          by (intro exI [of _ "(code, py_strip current_chunk, r1) # new"]) auto
      qed
    qed
  qed
qed

lemma translate_chunks_calls:
  assumes "translate_chunks prov code content io = (r, io')"
  shows "\<exists>new. calls io' = calls io @ new \<and> (\<forall>c\<in>set new. fst c = code)
       \<and> (isl r \<longleftrightarrow> (\<exists>c\<in>set new. isl (snd (snd c))))"
proof (cases "length content \<le> max_chunk_size")
  case True
  with assms have "translate_call prov code content io = (r, io')"
    by (simp add: translate_chunks_def)
  from translate_call_calls [OF this] show ?thesis by auto
next
  case False
  obtain r1 io1 where tp:
    "translate_paragraphs prov code (py_split paragraph_sep content) [] [] io = (r1, io1)"
    by (cases "translate_paragraphs prov code (py_split paragraph_sep content) [] [] io")
  from translate_paragraphs_calls [OF tp] obtain new where
    new: "calls io1 = calls io @ new" "\<forall>c\<in>set new. fst c = code"
      "isl r1 \<longleftrightarrow> (\<exists>c\<in>set new. isl (snd (snd c)))" by blast
  show ?thesis
  proof (cases r1)
    case (Inl e)
    with False tp assms have "r = Inl e" "io' = io1" by (simp_all add: translate_chunks_def)
    with new Inl show ?thesis by auto
  next
    case (Inr p)
    obtain cur parts where p: "p = (cur, parts)" by (cases p)
    show ?thesis
    proof (cases "py_strip cur \<noteq> []")
      case False
      with \<open>\<not> length content \<le> max_chunk_size\<close> tp assms Inr p
      have "r = Inr (py_join paragraph_sep parts)" "io' = io1"
        by (simp_all add: translate_chunks_def)
      with new Inr show ?thesis by auto
    next
      case True
      obtain r2 io2 where tc: "translate_call prov code (py_strip cur) io1 = (r2, io2)"
        by (cases "translate_call prov code (py_strip cur) io1")
      note c2 = translate_call_calls [OF tc]
      from True \<open>\<not> length content \<le> max_chunk_size\<close> tp assms Inr p tc
      have "isl r = isl r2" "io' = io2"
        by (auto simp: translate_chunks_def split: sum.splits)
      with new Inr c2 show ?thesis
        by (intro exI [of _ "new @ [(code, py_strip cur, r2)]"]) auto
    qed
  qed
qed

lemma translate_with_google_calls:
  assumes "translate_with_google prov content l io = (r, io')"
  shows "\<exists>new. calls io' = calls io @ new
       \<and> (\<forall>c\<in>set new. fst c = (if l = URDU then ''ur'' else ''en''))
       \<and> (isl r \<longleftrightarrow> (\<exists>c\<in>set new. isl (snd (snd c))))
       \<and> (\<forall>e. r = Inl e \<longrightarrow> (\<exists>m. e = RuntimeError (''Translation failed: '' @ m)))"
proof (cases "l = ENGLISH")
  case True
  with assms show ?thesis by (auto simp: translate_with_google_def)
next
  case False
  obtain r1 io1 where tc:
    "translate_chunks prov (if l = URDU then ''ur'' else ''en'') content io = (r1, io1)"
    by (cases "translate_chunks prov (if l = URDU then ''ur'' else ''en'') content io")
  from translate_chunks_calls [OF tc] obtain new where
    new: "calls io1 = calls io @ new" "\<forall>c\<in>set new. fst c = (if l = URDU then ''ur'' else ''en'')"
      "isl r1 \<longleftrightarrow> (\<exists>c\<in>set new. isl (snd (snd c)))" by blast
  from False tc assms have "io' = io1" "isl r = isl r1"
    "\<forall>e. r = Inl e \<longrightarrow> (\<exists>m. e = RuntimeError (''Translation failed: '' @ m))"
    by (auto simp: translate_with_google_def Let_def split: sum.splits)
  with new show ?thesis by blast
qed

text \<open>
  C5 (amended). When a provider call made by \<open>translate_chapter\<close> fails, the caller gets
  \<open>RuntimeError("Translation failed: ...")\<close> and no translation is stored: the service
  afterwards is the service before with the entry under the chapter's key evicted, and is
  unchanged when the key held no entry.
\<close>

theorem failure_stores_nothing:
  assumes call: "translate_chapter prov md5 now cid content l st io = (res, st', io')"
      and fails: "\<exists>c\<in>set (drop (length (calls io)) (calls io')). isl (snd (snd c))"
  shows "(\<exists>m. res = Inl (RuntimeError (''Translation failed: '' @ m)))
       \<and> st' = st\<lparr>translation_cache :=
                    AList.delete (get_cache_key cid l) (translation_cache st)\<rparr>
       \<and> (map_of (translation_cache st) (get_cache_key cid l) = None \<longrightarrow> st' = st)"
proof -
  obtain g st1 where g:
    "get_cached_translation st cid l (Some (compute_content_hash md5 content)) = (g, st1)"
    by (cases "get_cached_translation st cid l (Some (compute_content_hash md5 content))")
  note gc = get_cached_cases [OF g]
  have miss: "g = None"
  proof (cases g)
    case (Some c)
    with call g have "io' = io" by (simp add: translate_chapter_def Let_def)
    with fails show ?thesis by simp
  qed simp
  with gc have st1: "st1 = st\<lparr>translation_cache :=
                    AList.delete (get_cache_key cid l) (translation_cache st)\<rparr>" by simp
  obtain r io1 where t: "translate_with_google prov content l io = (r, io1)"
    by (cases "translate_with_google prov content l io")
  from translate_with_google_calls [OF t] obtain new where
    new: "calls io1 = calls io @ new" "isl r \<longleftrightarrow> (\<exists>c\<in>set new. isl (snd (snd c)))"
      "\<forall>e. r = Inl e \<longrightarrow> (\<exists>m. e = RuntimeError (''Translation failed: '' @ m))" by blast
  from call g miss t have io': "io' = io1"
    by (auto simp: translate_chapter_def Let_def split: sum.splits)
  with fails new have "isl r" by simp
  then obtain e where e: "r = Inl e" by (cases r) auto
  with call g miss t have "res = Inl e" "st' = st1"
    by (simp_all add: translate_chapter_def Let_def)
  with e new st1 show ?thesis by (auto simp: delete_absent)
qed

lemma py_split_nonempty: "py_split sep s \<noteq> []"
  by (induction sep s rule: py_split.induct) (auto split: list.splits)

lemma hd_py_split_colon: "hd (py_split '':'' s) = takeWhile (\<lambda>c. c \<noteq> CHR '':'') s"
proof (induction s)
  case Nil
  then show ?case by simp
next
  case (Cons c cs)
  then show ?case using py_split_nonempty [of "'':''" cs]
    by (auto split: list.splits)
qed

lemma last_write_wins:
  "get_user_preference s c
      (snd (set_user_preference t2 s c B (snd (set_user_preference t1 s c A st))))
     = Some \<lparr>up_session_id = s, up_chapter_id = c, preferred_language = B, up_updated_at = t2\<rparr>"
  by (simp add: get_user_preference_def set_user_preference_def Let_def update_conv')

text \<open>
  C9. Setting A and then B for one pair makes \<open>get_user_preference\<close> return B
  (\<open>last_write_wins\<close> above). The second half of the claim fails on the code: a
  preference is stored under the string \<open>session_id:chapter_id\<close>, which two different pairs
  can share. On a new service the pair (\<open>a\<close>, \<open>b:c\<close>) is absent; after a preference is set
  for the other pair (\<open>a:b\<close>, \<open>c\<close>), \<open>get_user_preference\<close> on (\<open>a\<close>, \<open>b:c\<close>), which was
  never set, returns that other pair's preference instead of reporting absent.
\<close>

theorem preference_key_collision:
  "get_user_preference ''a'' ''b:c'' init = None
   \<and> get_user_preference ''a'' ''b:c'' (snd (set_user_preference 1 ''a:b'' ''c'' URDU init))
     = Some \<lparr>up_session_id = ''a:b'', up_chapter_id = ''c'', preferred_language = URDU,
             up_updated_at = 1\<rparr>
   \<and> (''a'', ''b:c'') \<noteq> (''a:b'', ''c'')"
  by (simp add: get_user_preference_def set_user_preference_def init_def Let_def)

lemma endswith_urdu: "endswith (get_cache_key cid URDU) '':urdu''"
  by (simp add: endswith_def get_cache_key_def)

lemma takeWhile_cache_key:
  "takeWhile (\<lambda>x. x \<noteq> CHR '':'') (get_cache_key cid URDU) = takeWhile (\<lambda>x. x \<noteq> CHR '':'') cid"
  by (induction cid) (simp_all add: get_cache_key_def)

lemma chapters_with_urdu_eq:
  "chapters_with_urdu (get_cache_stats st) =
      map (takeWhile (\<lambda>x. x \<noteq> CHR '':''))
        (filter (\<lambda>k. endswith k '':urdu'') (map fst (translation_cache st)))"
  by (simp add: get_cache_stats_def hd_py_split_colon)

lemma listed_no_colon:
  "x \<in> set (chapters_with_urdu (get_cache_stats st)) \<Longrightarrow> CHR '':'' \<notin> set x"
proof
  assume "x \<in> set (chapters_with_urdu (get_cache_stats st))" and c: "CHR '':'' \<in> set x"
  then obtain k where "x = takeWhile (\<lambda>x. x \<noteq> CHR '':'') k"
    unfolding chapters_with_urdu_eq by auto
  with c have "CHR '':'' \<in> set (takeWhile (\<lambda>x. x \<noteq> CHR '':'') k)" by simp
  from set_takeWhileD [OF this] show False by simp
qed

text \<open>
  C10. For a cached Urdu translation of chapter \<open>cid\<close>, \<open>chapters_with_urdu\<close> lists the part
  of \<open>cid\<close> before its first colon; when \<open>cid\<close> contains a colon, \<open>cid\<close> itself is not
  listed, and when it contains none, \<open>cid\<close> is listed.
\<close>

theorem stats_list_prefix_before_colon:
  assumes "map_of (translation_cache st) (get_cache_key cid URDU) = Some c"
  shows "takeWhile (\<lambda>x. x \<noteq> CHR '':'') cid \<in> set (chapters_with_urdu (get_cache_stats st))
       \<and> (CHR '':'' \<in> set cid \<longrightarrow> cid \<notin> set (chapters_with_urdu (get_cache_stats st)))
       \<and> (CHR '':'' \<notin> set cid \<longrightarrow> cid \<in> set (chapters_with_urdu (get_cache_stats st)))"
proof -
  let ?k = "get_cache_key cid URDU"
  let ?P = "\<lambda>x. x \<noteq> CHR '':''"
  from assms have "(?k, c) \<in> set (translation_cache st)" by (rule map_of_SomeD)
  then have "fst (?k, c) \<in> fst ` set (translation_cache st)" by (rule imageI)
  then have "?k \<in> set (map fst (translation_cache st))" by simp
  moreover have "endswith ?k '':urdu''"
    by (rule endswith_urdu)
  ultimately have "?k \<in> set (filter (\<lambda>k. endswith k '':urdu'') (map fst (translation_cache st)))"
    unfolding set_filter by blast
  then have "takeWhile ?P ?k \<in> takeWhile ?P `
      set (filter (\<lambda>k. endswith k '':urdu'') (map fst (translation_cache st)))"
    by (rule imageI)
  then have 1: "takeWhile ?P cid \<in> set (chapters_with_urdu (get_cache_stats st))"
    unfolding chapters_with_urdu_eq set_map takeWhile_cache_key .
  have 2: "cid \<notin> set (chapters_with_urdu (get_cache_stats st))" if "CHR '':'' \<in> set cid"
    using that listed_no_colon [of cid st] by blast
  have 3: "cid \<in> set (chapters_with_urdu (get_cache_stats st))" if "CHR '':'' \<notin> set cid"
  proof -
    from that have "takeWhile ?P cid = cid" by (auto simp: takeWhile_eq_all_conv)
    with 1 show ?thesis by simp
  qed
  from 1 2 3 show ?thesis by blast
qed

lemma hash_not_old: "compute_content_hash md5 content \<noteq> ''old''"
  using hexdigest_length [of "md5 content"] by (auto simp: compute_content_hash_def)

lemma echo_short:
  "length content \<le> 4500 \<Longrightarrow> l \<noteq> ENGLISH \<Longrightarrow>
   translate_with_google echo_provider content l io =
     (Inr content, \<lparr>pstate = pstate io,
        calls = calls io @ [(if l = URDU then ''ur'' else ''en'', content, Inr content)]\<rparr>)"
  by (simp add: translate_with_google_def translate_chunks_def translate_call_def
        echo_provider_def max_chunk_size_def)

lemma failing_short:
  "length content \<le> 4500 \<Longrightarrow> l \<noteq> ENGLISH \<Longrightarrow>
   translate_with_google failing_provider content l io =
     (Inl (RuntimeError ''Translation failed: timeout''), \<lparr>pstate = pstate io,
        calls = calls io @ [(if l = URDU then ''ur'' else ''en'', content, Inl ''timeout'')]\<rparr>)"
  by (simp add: translate_with_google_def translate_chunks_def translate_call_def
        failing_provider_def max_chunk_size_def)

text \<open>
  C4 (amended). For an existing entry at (chapter_id, language): a lookup with a non-empty
  expected fingerprint that differs from the stored one deletes the entry and reports
  absent; a lookup with no fingerprint, or with the empty string, returns the entry and
  leaves the cache as it is.
\<close>

theorem get_cached_translation_fingerprint:
  assumes "map_of (translation_cache st) (get_cache_key cid l) = Some c"
  shows "(h \<noteq> [] \<and> h \<noteq> original_content_hash c \<longrightarrow>
            get_cached_translation st cid l (Some h) =
              (None, st\<lparr>translation_cache :=
                          AList.delete (get_cache_key cid l) (translation_cache st)\<rparr>)
          \<and> map_of (AList.delete (get_cache_key cid l) (translation_cache st))
                (get_cache_key cid l) = None)
       \<and> get_cached_translation st cid l None = (Some c, st)
       \<and> get_cached_translation st cid l (Some []) = (Some c, st)"
  using assms by (auto simp: get_cached_translation_def delete_conv')

theorem get_cached_translation_fingerprint_witness:
  "get_cached_translation stale_service ''ch1'' URDU (Some ''new'') =
     (None, \<lparr>translation_cache = [], user_preferences = []\<rparr>)
   \<and> get_cached_translation stale_service ''ch1'' URDU None = (Some stale_entry, stale_service)"
proof -
  have "map_of (translation_cache stale_service) (get_cache_key ''ch1'' URDU) = Some stale_entry"
    by (simp add: stale_service_def get_cache_key_def)
  from get_cached_translation_fingerprint [OF this, of "''new''"] show ?thesis
    by (simp add: stale_service_def stale_entry_def get_cache_key_def)
qed

theorem get_cached_translation_fingerprint_counterexample:
  "map_of (translation_cache stale_service) (get_cache_key ''ch1'' URDU) = Some stale_entry
   \<and> original_content_hash stale_entry \<noteq> []
   \<and> get_cached_translation stale_service ''ch1'' URDU (Some []) = (Some stale_entry, stale_service)"
  by (simp add: get_cached_translation_def stale_service_def stale_entry_def get_cache_key_def)

text \<open>
  C8 (amended). Every store of a translation (a successful call that was not answered from
  the cache) writes a whole new entry whose \<open>created_at\<close> and \<open>updated_at\<close> are both the
  time of the call, whether or not the key held an entry before.
\<close>

theorem put_resets_created_at:
  assumes "translate_chapter prov md5 now cid content l st io = (Inr r, st', io')"
      and "cached r = False"
  shows "\<exists>c. map_of (translation_cache st') (get_cache_key cid l) = Some c
           \<and> created_at c = now \<and> ct_updated_at c = now \<and> translated_at r = now"
proof -
  obtain g st1 where g:
    "get_cached_translation st cid l (Some (compute_content_hash md5 content)) = (g, st1)"
    by (cases "get_cached_translation st cid l (Some (compute_content_hash md5 content))")
  show ?thesis
  proof (cases g)
    case (Some c)
    with assms g show ?thesis by (auto simp: translate_chapter_def Let_def)
  next
    case None
    with assms g show ?thesis
      by (auto simp: translate_chapter_def Let_def update_conv' split: prod.splits sum.splits)
  qed
qed

lemma stale_miss:
  "\<forall>c. map_of (translation_cache stale_service) (get_cache_key ''ch1'' URDU) = Some c \<longrightarrow>
       original_content_hash c \<noteq> compute_content_hash md5 content"
  using hash_not_old [of md5 content]
  by (auto simp: stale_service_def stale_entry_def get_cache_key_def)

lemma stale_echo:
  "translate_chapter echo_provider md5 5 ''ch1'' ''Hello'' URDU stale_service net0 =
     (Inr \<lparr>tr_chapter_id = ''ch1'', tr_language = URDU, translated_content = ''Hello'',
            cached = False, translated_at = 5\<rparr>,
      \<lparr>translation_cache = [(''ch1:urdu'',
          \<lparr>ct_chapter_id = ''ch1'', ct_language = URDU,
           original_content_hash = compute_content_hash md5 ''Hello'',
           ct_translated_content = ''Hello'', created_at = 5, ct_updated_at = 5\<rparr>)],
        user_preferences = []\<rparr>,
      \<lparr>pstate = (), calls = [(''ur'', ''Hello'', Inr ''Hello'')]\<rparr>)"
  by (simp add: translate_chapter_miss [OF stale_miss] echo_short)
     (simp add: stale_service_def get_cache_key_def net0_def)

theorem put_resets_created_at_witness:
  "\<exists>c. map_of (translation_cache (fst (snd
        (translate_chapter echo_provider length_md5 5 ''ch1'' ''Hello'' URDU stale_service net0))))
        (get_cache_key ''ch1'' URDU) = Some c
      \<and> created_at c = 5 \<and> ct_updated_at c = 5"
  using put_resets_created_at [OF stale_echo [of length_md5]] by (simp add: stale_echo)

theorem put_resets_created_at_counterexample:
  "map_option created_at (map_of (translation_cache stale_service) (get_cache_key ''ch1'' URDU))
     = Some 1
   \<and> map_option created_at (map_of (translation_cache (fst (snd
        (translate_chapter echo_provider length_md5 5 ''ch1'' ''Hello'' URDU stale_service net0))))
        (get_cache_key ''ch1'' URDU)) = Some 5"
  by (simp add: stale_echo) (simp add: stale_service_def stale_entry_def get_cache_key_def)

lemma stale_failing:
  "translate_chapter failing_provider md5 5 ''ch1'' ''Hello'' URDU stale_service net0 =
     (Inl (RuntimeError ''Translation failed: timeout''),
      \<lparr>translation_cache = [], user_preferences = []\<rparr>,
      \<lparr>pstate = (), calls = [(''ur'', ''Hello'', Inl ''timeout'')]\<rparr>)"
  by (simp add: translate_chapter_miss [OF stale_miss] failing_short)
     (simp add: stale_service_def get_cache_key_def net0_def)

theorem failure_stores_nothing_counterexample:
  "isl (fst (translate_chapter failing_provider length_md5 5 ''ch1'' ''Hello'' URDU stale_service net0))
   \<and> translation_cache (fst (snd
        (translate_chapter failing_provider length_md5 5 ''ch1'' ''Hello'' URDU stale_service net0)))
      \<noteq> translation_cache stale_service"
  by (simp add: stale_failing) (simp add: stale_service_def)

lemma init_failing:
  "translate_chapter failing_provider md5 5 ''ch1'' ''Hello'' URDU init net0 =
     (Inl (RuntimeError ''Translation failed: timeout''), init,
      \<lparr>pstate = (), calls = [(''ur'', ''Hello'', Inl ''timeout'')]\<rparr>)"
  by (simp add: translate_chapter_def get_cached_translation_def init_def failing_short net0_def)

theorem failure_stores_nothing_witness:
  "fst (translate_chapter failing_provider length_md5 5 ''ch1'' ''Hello'' URDU init net0)
      = Inl (RuntimeError ''Translation failed: timeout'')
   \<and> fst (snd (translate_chapter failing_provider length_md5 5 ''ch1'' ''Hello'' URDU init net0))
      = init"
proof -
  have fails: "\<exists>c\<in>set (drop (length (calls net0))
      (calls \<lparr>pstate = (), calls = [(''ur'', ''Hello'', Inl ''timeout'')]\<rparr>)). isl (snd (snd c))"
    by (simp add: net0_def)
  from failure_stores_nothing [OF init_failing [of length_md5] fails] show ?thesis
    by (simp add: init_failing) 
qed

lemma init_echo:
  "translate_chapter echo_provider md5 5 ''ch1'' ''Hello world.'' URDU init net0 =
     (Inr \<lparr>tr_chapter_id = ''ch1'', tr_language = URDU, translated_content = ''Hello world.'',
            cached = False, translated_at = 5\<rparr>,
      \<lparr>translation_cache = [(''ch1:urdu'',
          \<lparr>ct_chapter_id = ''ch1'', ct_language = URDU,
           original_content_hash = compute_content_hash md5 ''Hello world.'',
           ct_translated_content = ''Hello world.'', created_at = 5, ct_updated_at = 5\<rparr>)],
        user_preferences = []\<rparr>,
      \<lparr>pstate = (), calls = [(''ur'', ''Hello world.'', Inr ''Hello world.'')]\<rparr>)"
  by (simp add: translate_chapter_def get_cached_translation_def init_def echo_short net0_def
        get_cache_key_def)

theorem translate_twice_cached_witness:
  "cached (projr (fst (translate_chapter echo_provider length_md5 5 ''ch1'' ''Hello world.'' URDU
       init net0))) = False
   \<and> (\<exists>r2. translate_chapter failing_provider length_md5 9 ''ch1'' ''Hello world.'' URDU
         (fst (snd (translate_chapter echo_provider length_md5 5 ''ch1'' ''Hello world.'' URDU
            init net0))) net0
         = (Inr r2, fst (snd (translate_chapter echo_provider length_md5 5 ''ch1'' ''Hello world.''
              URDU init net0)), net0)
       \<and> cached r2 = True \<and> translated_content r2 = ''Hello world.'')"
proof -
  have fresh: "\<forall>c. map_of (translation_cache init) (get_cache_key ''ch1'' URDU) = Some c \<longrightarrow>
      original_content_hash c \<noteq> compute_content_hash length_md5 ''Hello world.''"
    by (simp add: init_def)
  from translate_twice_cached [OF init_echo [of length_md5] fresh, of failing_provider 9 net0] show ?thesis
    by (simp add: init_echo)
qed

lemma length_md5_differs:
  "compute_content_hash length_md5 ''Hello'' \<noteq> compute_content_hash length_md5 ''Hello world.''"
  by code_simp

theorem retranslate_on_changed_text_witness:
  "translate_chapter echo_provider length_md5 9 ''ch1'' ''Hello'' URDU
     (fst (snd (translate_chapter echo_provider length_md5 5 ''ch1'' ''Hello world.'' URDU
        init net0))) net0
   = (Inr \<lparr>tr_chapter_id = ''ch1'', tr_language = URDU, translated_content = ''Hello'',
            cached = False, translated_at = 9\<rparr>,
      \<lparr>translation_cache = [(''ch1:urdu'',
          \<lparr>ct_chapter_id = ''ch1'', ct_language = URDU,
           original_content_hash = compute_content_hash length_md5 ''Hello'',
           ct_translated_content = ''Hello'', created_at = 9, ct_updated_at = 9\<rparr>)],
        user_preferences = []\<rparr>,
      \<lparr>pstate = (), calls = [(''ur'', ''Hello'', Inr ''Hello'')]\<rparr>)"
proof -
  have st1: "fst (snd (translate_chapter echo_provider length_md5 5 ''ch1'' ''Hello world.'' URDU
        init net0)) =
      \<lparr>translation_cache = [(''ch1:urdu'',
          \<lparr>ct_chapter_id = ''ch1'', ct_language = URDU,
           original_content_hash = compute_content_hash length_md5 ''Hello world.'',
           ct_translated_content = ''Hello world.'', created_at = 5, ct_updated_at = 5\<rparr>)],
        user_preferences = []\<rparr>"
    by (simp add: init_echo)
  from retranslate_on_changed_text [OF init_echo [of length_md5] length_md5_differs, of echo_provider 9 net0]
  show ?thesis unfolding st1
    by (simp add: echo_short get_cache_key_def net0_def)
qed

text \<open>
  C7 (amended). A target language other than English and Urdu is not rejected: every
  provider call is made with the code \<open>en\<close>, the call fails exactly when a provider call
  fails, then with \<open>RuntimeError("Translation failed: ...")\<close>, and a text of at most 4500
  characters is sent in one provider call.
\<close>

theorem unmapped_language_falls_back:
  assumes "l \<noteq> ENGLISH" and "l \<noteq> URDU"
      and "translate_with_google prov content l io = (r, io')"
  shows "\<exists>new. calls io' = calls io @ new
       \<and> (\<forall>c\<in>set new. fst c = ''en'')
       \<and> (isl r \<longleftrightarrow> (\<exists>c\<in>set new. isl (snd (snd c))))
       \<and> (\<forall>e. r = Inl e \<longrightarrow> (\<exists>m. e = RuntimeError (''Translation failed: '' @ m)))
       \<and> (length content \<le> 4500 \<longrightarrow>
            new = [(''en'', content, fst (prov (pstate io) ''en'' content))])"
proof -
  from translate_with_google_calls [OF assms(3)] assms(2) obtain new where
    new: "calls io' = calls io @ new" "\<forall>c\<in>set new. fst c = ''en''"
      "isl r \<longleftrightarrow> (\<exists>c\<in>set new. isl (snd (snd c)))"
      "\<forall>e. r = Inl e \<longrightarrow> (\<exists>m. e = RuntimeError (''Translation failed: '' @ m))"
    by auto
  have "new = [(''en'', content, fst (prov (pstate io) ''en'' content))]"
    if "length content \<le> 4500"
  proof -
    from that assms have "calls io' = calls io @ [(''en'', content, fst (prov (pstate io) ''en'' content))]"
      by (auto simp: translate_with_google_def translate_chunks_def translate_call_def
            max_chunk_size_def Let_def split: prod.splits sum.splits)
    with new(1) show ?thesis by simp
  qed
  with new show ?thesis by blast
qed

theorem unmapped_language_falls_back_counterexample:
  "translate_with_google echo_provider ''Hello'' (OTHER ''french'') net0 =
     (Inr ''Hello'', \<lparr>pstate = (), calls = [(''en'', ''Hello'', Inr ''Hello'')]\<rparr>)"
  by (simp add: echo_short net0_def)

theorem unmapped_language_falls_back_witness:
  "\<exists>new. calls (snd (translate_with_google echo_provider ''Hello'' (OTHER ''french'') net0))
            = calls net0 @ new
       \<and> new = [(''en'', ''Hello'', Inr ''Hello'')]
       \<and> \<not> isl (fst (translate_with_google echo_provider ''Hello'' (OTHER ''french'') net0))"
  using unmapped_language_falls_back [of "OTHER ''french''" echo_provider "''Hello''" net0
      "fst (translate_with_google echo_provider ''Hello'' (OTHER ''french'') net0)"
      "snd (translate_with_google echo_provider ''Hello'' (OTHER ''french'') net0)"]
  by (simp add: echo_provider_def)

theorem stats_list_prefix_before_colon_witness:
  "chapters_with_urdu (get_cache_stats
      \<lparr>translation_cache = [(''part1:ch1:urdu'', stale_entry), (''ch2:urdu'', stale_entry)],
       user_preferences = []\<rparr>) = [''part1'', ''ch2'']"
proof -
  have "takeWhile (\<lambda>x. x \<noteq> CHR '':'') ''part1:ch1'' \<in> set (chapters_with_urdu (get_cache_stats
      \<lparr>translation_cache = [(''part1:ch1:urdu'', stale_entry), (''ch2:urdu'', stale_entry)],
       user_preferences = []\<rparr>))"
    using stats_list_prefix_before_colon [of "\<lparr>translation_cache = [(''part1:ch1:urdu'', stale_entry), (''ch2:urdu'', stale_entry)],
       user_preferences = []\<rparr>" "''part1:ch1''" stale_entry]
    by (simp add: get_cache_key_def)
  then show ?thesis
    by (simp add: get_cache_stats_def endswith_def)
qed























end
